theory Spec2Isabelle
  imports Main
begin

section \<open>Admin dashboard (src/app/admin-dashboard/page.tsx)\<close>

text \<open>
  A shallow embedding of the logic of the admin dashboard page: slug derivation, the
  sales tally, taxonomy seeding, the product form's submit handler, the upload
  callbacks, the taxonomy dialogs, the order-status handler and the access gate.

  React state is a record that every handler takes and returns; the calls to the
  backend (\<open>addDocumentNonBlocking\<close>, \<open>updateDocumentNonBlocking\<close>), to \<open>console.error\<close>
  and to \<open>toast\<close> are appended to lists in that record, in call order.
\<close>

subsection \<open>Strings\<close>

text \<open>
  A JavaScript string is a sequence of UTF-16 code units. The model uses \<open>string\<close>,
  whose characters are the code units \<open>0..255\<close> (ASCII and the Latin-1 supplement);
  code units above \<open>255\<close> are outside the model. On this range:
  \<^item> \<open>String.prototype.toLowerCase\<close> maps \<open>A..Z\<close> and \<open>U+00C0..U+00DE\<close> (without the
    multiplication sign \<open>U+00D7\<close>) to the code unit \<open>32\<close> above and nothing else;
  \<^item> the white space of \<open>trim\<close> and of the regular expression class \<open>\s\<close> is
    TAB, LF, VT, FF, CR, SPACE and NO-BREAK SPACE.
\<close>

definition isWhiteSpace :: "char \<Rightarrow> bool" where
  "isWhiteSpace c = (of_char c \<in> {9, 10, 11, 12, 13, 32, 160 :: nat})"

definition toLowerCase_unit :: "char \<Rightarrow> char" where
  "toLowerCase_unit c =
     (let n = of_char c :: nat
      in if (65 \<le> n \<and> n \<le> 90) \<or> (192 \<le> n \<and> n \<le> 222 \<and> n \<noteq> 215)
         then char_of (n + 32) else c)"

definition toLowerCase :: "string \<Rightarrow> string" where
  "toLowerCase s = map toLowerCase_unit s"

definition trim :: "string \<Rightarrow> string" where
  "trim s = rev (dropWhile isWhiteSpace (rev (dropWhile isWhiteSpace s)))"

text \<open>
  \<open>s.replace(/[C]/g, r)\<close> for a character class \<open>C\<close> (given as a predicate) and a
  replacement \<open>r\<close> without \<open>$\<close>: every code unit in the class becomes \<open>r\<close>.
\<close>

fun replace_class_g :: "(char \<Rightarrow> bool) \<Rightarrow> string \<Rightarrow> string \<Rightarrow> string" where
  "replace_class_g p r [] = []"
| "replace_class_g p r (c # cs) =
     (if p c then r @ replace_class_g p r cs else c # replace_class_g p r cs)"

text \<open>
  \<open>s.replace(/[C]+/g, r)\<close>: the quantifier is greedy, so a match that starts at a code
  unit of the class takes the whole run, and the scan goes on behind the run.
\<close>

function replace_plus_g :: "(char \<Rightarrow> bool) \<Rightarrow> string \<Rightarrow> string \<Rightarrow> string" where
  "replace_plus_g p r [] = []"
| "replace_plus_g p r (c # cs) =
     (if p c then r @ replace_plus_g p r (dropWhile p cs) else c # replace_plus_g p r cs)"
  by pat_completeness auto
termination
  by (relation "measure (\<lambda>(p, r, s). length s)")
     (auto simp: length_dropWhile_le less_Suc_eq_le)

subsection \<open>Slug derivation\<close>

text \<open>The classes of the four regular expressions of the slug effect.\<close>

definition isAmpersand :: "char \<Rightarrow> bool" where
  "isAmpersand c = (c = CHR ''&'')"

definition isHyphen :: "char \<Rightarrow> bool" where
  "isHyphen c = (c = CHR ''-'')"

definition notSlugChar :: "char \<Rightarrow> bool" where
  \<comment> \<open>the class \<open>[^a-z0-9\s-]\<close>\<close>
  "notSlugChar c =
     (let n = of_char c :: nat
      in \<not> ((97 \<le> n \<and> n \<le> 122) \<or> (48 \<le> n \<and> n \<le> 57) \<or> isWhiteSpace c \<or> isHyphen c))"

text \<open>
  \<^verbatim>\<open>nameValue.toLowerCase().trim().replace(/&/g, 'and').replace(/[^a-z0-9\s-]/g, '')
       .replace(/\s+/g, '-').replace(/-+/g, '-')\<close>
\<close>

definition generatedSlug :: "string \<Rightarrow> string" where
  "generatedSlug nameValue =
     replace_plus_g isHyphen ''-''
       (replace_plus_g isWhiteSpace ''-''
         (replace_class_g notSlugChar ''''
           (replace_class_g isAmpersand ''and''
             (trim (toLowerCase nameValue)))))"

text \<open>
  The derivation in the words of the specification: lowercase the name, trim, replace
  each ampersand with \<open>and\<close>, keep only the characters of \<open>[a-z0-9\s-]\<close>, collapse each
  run of white space to one hyphen, collapse each run of hyphens to one hyphen.
  A run is collapsed by one pass that remembers whether the previous character
  belonged to the run.
\<close>

fun collapse_runs :: "(char \<Rightarrow> bool) \<Rightarrow> bool \<Rightarrow> string \<Rightarrow> string" where
  "collapse_runs p inRun [] = []"
| "collapse_runs p inRun (c # cs) =
     (if p c then (if inRun then collapse_runs p True cs
                   else CHR ''-'' # collapse_runs p True cs)
      else c # collapse_runs p False cs)"

definition slug_spec :: "string \<Rightarrow> string" where
  "slug_spec nameValue =
     collapse_runs isHyphen False
       (collapse_runs isWhiteSpace False
         (filter (\<lambda>c. \<not> notSlugChar c)
           (concat (map (\<lambda>c. if c = CHR ''&'' then ''and'' else [c])
             (trim (map toLowerCase_unit nameValue))))))"

subsection \<open>Data model\<close>

text \<open>
  Modelled from the spec: the types \<open>Product\<close> and \<open>Order\<close>, which the page imports from
  \<open>@/lib/types\<close>, a file that is not among the sources. They have the fields of
  section 3 of the specification that the page reads: a product's id, name and slug;
  an order's id, product lines and status; a line's id, name and quantity. Numbers are
  modelled as integers.
\<close>

record Product =
  product_id :: string
  product_name :: string
  product_slug :: string

record OrderLine =
  line_id :: string
  line_name :: string
  quantity :: int

record Order =
  order_id :: string
  products :: "OrderLine list"
  status :: string

text \<open>\<open>type Category = { id: string; name: string }\<close>, and the same for \<open>Style\<close>.\<close>

record NamedDoc =
  doc_id :: string
  doc_name :: string

type_synonym Category = NamedDoc
type_synonym Style = NamedDoc

record Color =
  color_name :: string
  hex :: string

text \<open>
  \<open>ProductFormData\<close>, the type inferred from \<open>productSchema\<close>. An optional field is an
  \<open>option\<close> whose \<open>None\<close> is \<open>undefined\<close> (for \<open>originalPrice\<close>: \<open>undefined\<close> or
  \<open>null\<close>, which the code never tells apart).
\<close>

record ProductFormData =
  name :: string
  slug :: string
  description :: string
  category :: string
  style :: "string option"
  price :: int
  originalPrice :: "int option"
  imageUrl1 :: "string option"
  imageUrl2 :: "string option"
  imageUrl3 :: "string option"
  imageUrl4 :: "string option"
  sizes :: "string list option"
  availableColors :: "Color list option"
  isFeatured :: "bool option"

record Image =
  url :: string
  alt :: string
  hint :: string

datatype FieldValue = ServerTimestamp

text \<open>
  The object \<open>productData\<close> that \<open>onSubmit\<close> writes: the form data spread, some fields
  overridden, and the added ones. In \<open>style\<close> and \<open>originalPrice\<close> of a written record
  \<open>None\<close> is \<open>null\<close>; \<open>createdAt\<close> is \<open>None\<close> when the key is absent.
\<close>

record ProductData = ProductFormData +
  images :: "Image list"
  updatedAt :: FieldValue
  createdAt :: "FieldValue option"

datatype Payload =
    NameDoc string
  | ProductDoc ProductData
  | StatusDoc string

datatype Write =
    AddDocument string Payload
  | UpdateDocument string string Payload

text \<open>
  The state of \<open>DashboardContent\<close>: its \<open>useState\<close> cells, the values of the form, whether
  \<open>useFirestore()\<close> gave a handle, and the effects so far. (\<open>uploadProgress\<close>, a
  floating-point percentage, is left out.)
\<close>

record DashboardState =
  isDialogOpen :: bool
  editingProduct :: "Product option"
  uploading :: bool
  uploadedUrl :: "string option"
  isCategoryDialogOpen :: bool
  newCategoryName :: string
  isStyleDialogOpen :: bool
  newStyleName :: string
  form :: ProductFormData
  firestore :: bool
  writes :: "Write list"
  console :: "string list"
  toasts :: "(string \<times> string) list"

definition defaultValues :: ProductFormData where
  "defaultValues =
     \<lparr>name = '''', slug = '''', description = '''', category = '''', style = Some '''',
      price = 0, originalPrice = None, imageUrl1 = Some '''', imageUrl2 = Some '''',
      imageUrl3 = Some '''', imageUrl4 = Some '''', sizes = Some [],
      availableColors = Some [], isFeatured = Some False\<rparr>"

definition initialState :: DashboardState where
  "initialState =
     \<lparr>isDialogOpen = False, editingProduct = None, uploading = False, uploadedUrl = None,
      isCategoryDialogOpen = False, newCategoryName = '''', isStyleDialogOpen = False,
      newStyleName = '''', form = defaultValues, firestore = True, writes = [],
      console = [], toasts = []\<rparr>"

text \<open>JavaScript truthiness of a \<open>string | undefined\<close> and of a \<open>number | null\<close>.\<close>

fun truthy_string :: "string option \<Rightarrow> bool" where
  "truthy_string None = False"
| "truthy_string (Some v) = (v \<noteq> [])"

fun truthy_number :: "int option \<Rightarrow> bool" where
  "truthy_number None = False"
| "truthy_number (Some n) = (n \<noteq> 0)"

subsection \<open>Sales tally\<close>

text \<open>
  The values that an entry of the tally can take. A JavaScript number is an IEEE double:
  every integer of magnitude at most \<open>2^53\<close> is one, and a sum of two of them that
  stays in that range is exact. \<open>Num v\<close> is such an integer; \<open>Inexact\<close> is a number
  that the model does not follow any further (a sum that has left the range, where
  rounding sets in); \<open>Other\<close> is a value that is not a number (a string, or a function
  or an object inherited from \<open>Object.prototype\<close>), all of which are truthy here.
\<close>

datatype JsValue = Undefined | Num int | Inexact | Other

definition exactBound :: int where
  "exactBound = 9007199254740992"

text \<open>The quantity of a line as a value: the lines of the model carry integers.\<close>

definition numberOf :: "int \<Rightarrow> JsValue" where
  "numberOf q = (if \<bar>q\<bar> \<le> exactBound then Num q else Inexact)"

text \<open>
  \<open>x || 0\<close>: a falsy \<open>x\<close> (\<open>undefined\<close>, zero) gives \<open>0\<close>. For an untracked number the
  result is again a number.
\<close>

fun orZero :: "JsValue \<Rightarrow> JsValue" where
  "orZero Undefined = Num 0"
| "orZero (Num v) = (if v \<noteq> 0 then Num v else Num 0)"
| "orZero Inexact = Inexact"
| "orZero Other = Other"

text \<open>
  \<open>x + y\<close>: the sum of two numbers; as soon as one operand is a string, or a function or
  an object (which \<open>+\<close> turns into a string), the concatenation of two strings.
\<close>

fun plus_js :: "JsValue \<Rightarrow> JsValue \<Rightarrow> JsValue" where
  "plus_js (Num a) (Num b) = (if \<bar>a + b\<bar> \<le> exactBound then Num (a + b) else Inexact)"
| "plus_js Other y = Other"
| "plus_js x Other = Other"
| "plus_js x y = Inexact"

text \<open>
  The object \<open>counts\<close> starts as \<open>{}\<close>: it has no property of its own and inherits those
  of \<open>Object.prototype\<close>. It is modelled by the map of its own properties. Reading a
  key that is not an own property gives the inherited member, if the key names one,
  and \<open>undefined\<close> otherwise. Writing a key makes it an own property, except for
  \<open>__proto__\<close>, whose setter ignores a value that is not an object.
\<close>

definition objectPrototypeMembers :: "string list" where
  "objectPrototypeMembers =
     [''constructor'', ''__defineGetter__'', ''__defineSetter__'', ''hasOwnProperty'',
      ''__lookupGetter__'', ''__lookupSetter__'', ''isPrototypeOf'', ''propertyIsEnumerable'',
      ''toString'', ''valueOf'', ''__proto__'', ''toLocaleString'']"

definition getProp :: "(string \<rightharpoonup> JsValue) \<Rightarrow> string \<Rightarrow> JsValue" where
  "getProp obj k =
     (case obj k of
        Some v \<Rightarrow> v
      | None \<Rightarrow> if k \<in> set objectPrototypeMembers then Other else Undefined)"

definition setProp :: "(string \<rightharpoonup> JsValue) \<Rightarrow> string \<Rightarrow> JsValue \<Rightarrow> (string \<rightharpoonup> JsValue)" where
  "setProp obj k v = (if k = ''__proto__'' then obj else obj(k \<mapsto> v))"

text \<open>
  \<^verbatim>\<open>counts[product.id] = (counts[product.id] || 0) + product.quantity\<close>
\<close>

definition countLine :: "(string \<rightharpoonup> JsValue) \<Rightarrow> OrderLine \<Rightarrow> (string \<rightharpoonup> JsValue)" where
  "countLine counts product =
     setProp counts (line_id product)
       (plus_js (orZero (getProp counts (line_id product))) (numberOf (quantity product)))"

definition countOrder :: "(string \<rightharpoonup> JsValue) \<Rightarrow> Order \<Rightarrow> (string \<rightharpoonup> JsValue)" where
  "countOrder counts order = foldl countLine counts (products order)"

definition salesCount :: "Order list option \<Rightarrow> (string \<rightharpoonup> JsValue)" where
  "salesCount orders =
     (case orders of None \<Rightarrow> Map.empty | Some os \<Rightarrow> foldl countOrder Map.empty os)"

text \<open>
  The tally in the words of the specification: the quantities of all product lines of
  all orders, summed per product id. \<open>absQuantity\<close> bounds every partial sum.
\<close>

definition allLines :: "Order list \<Rightarrow> OrderLine list" where
  "allLines os = concat (map products os)"

definition soldQuantity :: "OrderLine list \<Rightarrow> string \<Rightarrow> int" where
  "soldQuantity ls k = sum_list (map quantity (filter (\<lambda>l. line_id l = k) ls))"

definition absQuantity :: "OrderLine list \<Rightarrow> string \<Rightarrow> int" where
  "absQuantity ls k = sum_list (map (\<lambda>l. \<bar>quantity l\<bar>) (filter (\<lambda>l. line_id l = k) ls))"

subsection \<open>Taxonomy seeding\<close>

definition defaultCategories :: "string list" where
  "defaultCategories = [''Women'', ''Men'', ''Unisex'', ''Bags'']"

definition defaultStyles :: "string list" where
  "defaultStyles =
     [''Casual'', ''Streetwear'', ''Formal'', ''Vintage'', ''Minimal'', ''Small'', ''Big'',
      ''Luggage'']"

text \<open>
  One of the two blocks of the seeding effect, for the collection \<open>col\<close>:
  \<^verbatim>\<open>const existing = new Set(docs.map(c => c.name.toLowerCase()));
  defaults.forEach(name => {
      if (!existing.has(name.toLowerCase())) addDocumentNonBlocking(collection(firestore, col), { name });
  });\<close>
  The result is the list of the writes issued, in the order of the calls.
\<close>

definition seedWrites :: "string \<Rightarrow> string list \<Rightarrow> NamedDoc list \<Rightarrow> Write list" where
  "seedWrites col defaults docs =
     (let existing = set (map (\<lambda>c. toLowerCase (doc_name c)) docs)
      in map (\<lambda>n. AddDocument col (NameDoc n))
           (filter (\<lambda>n. toLowerCase n \<notin> existing) defaults))"

text \<open>
  The seeding effect. \<open>categories\<close> and \<open>styles\<close> are the snapshots of \<open>useCollection\<close>,
  \<open>None\<close> while there is none.
\<close>

definition seedEffect ::
  "bool \<Rightarrow> bool \<Rightarrow> Category list option \<Rightarrow> Style list option \<Rightarrow> DashboardState
     \<Rightarrow> DashboardState" where
  "seedEffect isLoadingCategories isLoadingStyles categories styles s =
     (if \<not> firestore s \<or> isLoadingCategories \<or> isLoadingStyles then s
      else
        let s1 = (case categories of
                    None \<Rightarrow> s
                  | Some cs \<Rightarrow>
                      s\<lparr>writes := writes s @ seedWrites ''categories'' defaultCategories cs\<rparr>);
            s2 = (case styles of
                    None \<Rightarrow> s1
                  | Some ss \<Rightarrow>
                      s1\<lparr>writes := writes s1 @ seedWrites ''styles'' defaultStyles ss\<rparr>)
        in s2)"

text \<open>
  The backend, as far as the taxonomy goes: the two collections. A write that adds
  \<open>{ name }\<close> to a collection appends a document whose id the backend chooses (\<open>newId\<close>,
  any function of the collection so far); no other write touches these collections.
\<close>

record Store =
  categories_col :: "Category list"
  styles_col :: "Style list"

fun applyWrite :: "(NamedDoc list \<Rightarrow> string) \<Rightarrow> Store \<Rightarrow> Write \<Rightarrow> Store" where
  "applyWrite newId st (AddDocument col (NameDoc n)) =
     (if col = ''categories''
      then st\<lparr>categories_col :=
                categories_col st @ [\<lparr>doc_id = newId (categories_col st), doc_name = n\<rparr>]\<rparr>
      else if col = ''styles''
      then st\<lparr>styles_col := styles_col st @ [\<lparr>doc_id = newId (styles_col st), doc_name = n\<rparr>]\<rparr>
      else st)"
| "applyWrite newId st w = st"

text \<open>
  One run of the seeding effect against a loaded store, with a backend handle, and the
  writes it issues applied to the store.
\<close>

definition seedStore :: "(NamedDoc list \<Rightarrow> string) \<Rightarrow> Store \<Rightarrow> Store" where
  "seedStore newId st =
     foldl (applyWrite newId) st
       (writes (seedEffect False False (Some (categories_col st)) (Some (styles_col st))
                 initialState))"

definition names_ci :: "NamedDoc list \<Rightarrow> string list" where
  \<comment> \<open>the names of a collection, case ignored\<close>
  "names_ci docs = map (\<lambda>c. toLowerCase (doc_name c)) docs"

subsection \<open>Slug effect\<close>

text \<open>
  \<^verbatim>\<open>useEffect(() => {
    if (!editingProduct && nameValue) {
      const generatedSlug = ...;
      form.setValue('slug', generatedSlug, { shouldValidate: true });
    }
  }, [nameValue, editingProduct, form.setValue]);\<close>
\<close>

definition slugEffect :: "DashboardState \<Rightarrow> DashboardState" where
  "slugEffect s =
     (if editingProduct s = None \<and> name (form s) \<noteq> []
      then s\<lparr>form := (form s)\<lparr>slug := generatedSlug (name (form s))\<rparr>\<rparr>
      else s)"

text \<open>
  A change of the name field: the field takes the value, \<open>form.watch('name')\<close> gives
  the new \<open>nameValue\<close>, and the effect runs.
\<close>

definition changeName :: "string \<Rightarrow> DashboardState \<Rightarrow> DashboardState" where
  "changeName v s = slugEffect (s\<lparr>form := (form s)\<lparr>name := v\<rparr>\<rparr>)"

subsection \<open>Image upload callbacks\<close>

datatype ImageField = ImageUrl1 | ImageUrl2 | ImageUrl3 | ImageUrl4

fun getValues :: "ProductFormData \<Rightarrow> ImageField \<Rightarrow> string option" where
  "getValues f ImageUrl1 = imageUrl1 f"
| "getValues f ImageUrl2 = imageUrl2 f"
| "getValues f ImageUrl3 = imageUrl3 f"
| "getValues f ImageUrl4 = imageUrl4 f"

fun setValue :: "ImageField \<Rightarrow> string \<Rightarrow> ProductFormData \<Rightarrow> ProductFormData" where
  "setValue ImageUrl1 v f = f\<lparr>imageUrl1 := Some v\<rparr>"
| "setValue ImageUrl2 v f = f\<lparr>imageUrl2 := Some v\<rparr>"
| "setValue ImageUrl3 v f = f\<lparr>imageUrl3 := Some v\<rparr>"
| "setValue ImageUrl4 v f = f\<lparr>imageUrl4 := Some v\<rparr>"

definition imageFields :: "ImageField list" where
  "imageFields = [ImageUrl1, ImageUrl2, ImageUrl3, ImageUrl4]"

text \<open>The start of \<open>handleImageUpload\<close>, once a file and the app handle are there.\<close>

definition uploadStarted :: "DashboardState \<Rightarrow> DashboardState" where
  "uploadStarted s = s\<lparr>uploading := True, uploadedUrl := None\<rparr>"

text \<open>
  The error callback of the upload task:
  \<^verbatim>\<open>(error) => { console.error("Upload failed", error); setUploading(false); }\<close>
\<close>

definition uploadFailed :: "string \<Rightarrow> DashboardState \<Rightarrow> DashboardState" where
  "uploadFailed error s =
     s\<lparr>console := console s @ [''Upload failed '' @ error], uploading := False\<rparr>"

text \<open>
  The completion callback, once \<open>getDownloadURL\<close> has resolved to \<open>downloadURL\<close>:
  \<^verbatim>\<open>setUploadedUrl(downloadURL);
  setUploading(false);
  const firstEmptyField = imageFields.find(field => !form.getValues(field));
  if (firstEmptyField) { form.setValue(firstEmptyField, downloadURL, { shouldValidate: true }); }\<close>
\<close>

definition uploadCompleted :: "string \<Rightarrow> DashboardState \<Rightarrow> DashboardState" where
  "uploadCompleted downloadURL s =
     (let s1 = s\<lparr>uploadedUrl := Some downloadURL, uploading := False\<rparr>
      in case find (\<lambda>field. \<not> truthy_string (getValues (form s1) field)) imageFields of
           Some firstEmptyField \<Rightarrow> s1\<lparr>form := setValue firstEmptyField downloadURL (form s1)\<rparr>
         | None \<Rightarrow> s1)"

subsection \<open>Submit\<close>

text \<open>
  \<^verbatim>\<open>[data.imageUrl1, data.imageUrl2, data.imageUrl3, data.imageUrl4]
      .filter((url): url is string => !!url)
      .map(url => ({ url, alt: data.name, hint: 'product image' }))\<close>
\<close>

definition submittedImages :: "ProductFormData \<Rightarrow> Image list" where
  "submittedImages data =
     map (\<lambda>u. \<lparr>url = the u, alt = name data, hint = ''product image''\<rparr>)
       (filter truthy_string [imageUrl1 data, imageUrl2 data, imageUrl3 data, imageUrl4 data])"

definition productData :: "ProductFormData \<Rightarrow> ProductData" where
  "productData data =
     \<lparr>name = name data, slug = slug data, description = description data,
      category = category data,
      style = (if truthy_string (style data) then style data else None),
      price = price data,
      originalPrice = (if truthy_number (originalPrice data) then originalPrice data else None),
      imageUrl1 = imageUrl1 data, imageUrl2 = imageUrl2 data, imageUrl3 = imageUrl3 data,
      imageUrl4 = imageUrl4 data, sizes = sizes data, availableColors = availableColors data,
      isFeatured = Some (case isFeatured data of None \<Rightarrow> False | Some b \<Rightarrow> b),
      images = submittedImages data, updatedAt = ServerTimestamp, createdAt = None\<rparr>"

definition onSubmit :: "ProductFormData \<Rightarrow> DashboardState \<Rightarrow> DashboardState" where
  "onSubmit data s =
     (if \<not> firestore s then s
      else
        let w = (case editingProduct s of
                   Some p \<Rightarrow> UpdateDocument ''products'' (product_id p) (ProductDoc (productData data))
                 | None \<Rightarrow>
                     AddDocument ''products''
                       (ProductDoc ((productData data)\<lparr>createdAt := Some ServerTimestamp\<rparr>)))
        in s\<lparr>writes := writes s @ [w], isDialogOpen := False, editingProduct := None\<rparr>)"

text \<open>The record that a write carries, if it carries a product.\<close>

fun writtenProduct :: "Write \<Rightarrow> ProductData option" where
  "writtenProduct (AddDocument col (ProductDoc d)) = Some d"
| "writtenProduct (UpdateDocument col i (ProductDoc d)) = Some d"
| "writtenProduct w = None"

subsection \<open>Taxonomy dialogs\<close>

definition handleAddCategory :: "DashboardState \<Rightarrow> DashboardState" where
  "handleAddCategory s =
     (if \<not> firestore s \<or> trim (newCategoryName s) = [] then s
      else s\<lparr>writes := writes s @ [AddDocument ''categories'' (NameDoc (trim (newCategoryName s)))],
             newCategoryName := '''',
             isCategoryDialogOpen := False\<rparr>)"

definition handleAddStyle :: "DashboardState \<Rightarrow> DashboardState" where
  "handleAddStyle s =
     (if \<not> firestore s \<or> trim (newStyleName s) = [] then s
      else s\<lparr>writes := writes s @ [AddDocument ''styles'' (NameDoc (trim (newStyleName s)))],
             newStyleName := '''',
             isStyleDialogOpen := False\<rparr>)"

subsection \<open>Order status\<close>

text \<open>
  The parameter \<open>status\<close> has the type \<open>Order['status']\<close>, which exists at compile time
  only; the caller casts the string that the selector hands over
  (\<open>newStatus as Order['status']\<close>). At run time it is a string.
\<close>

definition handleUpdateOrderStatus :: "string \<Rightarrow> string \<Rightarrow> DashboardState \<Rightarrow> DashboardState" where
  "handleUpdateOrderStatus orderId newStatus s =
     (if \<not> firestore s then s
      else s\<lparr>writes := writes s @ [UpdateDocument ''orders'' orderId (StatusDoc newStatus)],
             toasts := toasts s @
               [(''Order Status Updated'',
                 ''Order '' @ take 6 orderId @ ''... has been set to '' @ newStatus @ ''.'')]\<rparr>)"

text \<open>The values of the \<open>SelectItem\<close>s of the status selector of an order row.\<close>

definition statusSelectItems :: "string list" where
  "statusSelectItems = [''pending'', ''shipped'', ''delivered'', ''cancelled'']"

subsection \<open>Access gate\<close>

text \<open>
  \<open>user.email\<close> is \<open>string | null\<close> and \<open>ADMIN_EMAIL\<close>, read from the environment, is
  \<open>string | undefined\<close>; both are options here. \<open>===\<close> holds between two equal
  strings only: \<open>null === undefined\<close> is false.
\<close>

record User =
  email :: "string option"

fun strictEquals :: "string option \<Rightarrow> string option \<Rightarrow> bool" where
  "strictEquals (Some a) (Some b) = (a = b)"
| "strictEquals a b = False"

datatype View = LoadingView | LoginView | AccessDeniedView | DashboardView

definition AdminDashboard :: "bool \<Rightarrow> User option \<Rightarrow> string option \<Rightarrow> View" where
  "AdminDashboard isUserLoading user ADMIN_EMAIL =
     (if isUserLoading then LoadingView
      else if user \<noteq> None \<and> strictEquals (email (the user)) ADMIN_EMAIL then DashboardView
      else if user \<noteq> None \<and> \<not> strictEquals (email (the user)) ADMIN_EMAIL then AccessDeniedView
      else LoginView)"

subsection \<open>Notions of the specification\<close>

text \<open>
  The default names that a collection lacks, case ignored: what the specification
  says seeding inserts.
\<close>

definition missingDefaults :: "string list \<Rightarrow> NamedDoc list \<Rightarrow> string list" where
  "missingDefaults defaults docs =
     filter (\<lambda>n. toLowerCase n \<notin> set (names_ci docs)) defaults"

text \<open>A collection after documents with the given names have been added, one by one.\<close>

fun addNamed :: "(NamedDoc list \<Rightarrow> string) \<Rightarrow> NamedDoc list \<Rightarrow> string list \<Rightarrow> NamedDoc list" where
  "addNamed newId docs [] = docs"
| "addNamed newId docs (n # ns) =
     addNamed newId (docs @ [\<lparr>doc_id = newId docs, doc_name = n\<rparr>]) ns"

text \<open>The image URLs of the form that are not empty, in the order of the fields 1 to 4.\<close>

definition nonEmptyUrls :: "ProductFormData \<Rightarrow> string list" where
  "nonEmptyUrls data =
     filter (\<lambda>u. u \<noteq> [])
       (map (\<lambda>x. case x of None \<Rightarrow> [] | Some u \<Rightarrow> u)
          [imageUrl1 data, imageUrl2 data, imageUrl3 data, imageUrl4 data])"

text \<open>The product record carried by the latest write, if there is one.\<close>

definition lastWritten :: "DashboardState \<Rightarrow> ProductData option" where
  "lastWritten s = (if writes s = [] then None else writtenProduct (last (writes s)))"

subsection \<open>Example data\<close>

definition exampleOrders :: "Order list" where
  "exampleOrders =
     [\<lparr>order_id = ''o1'',
       products = [\<lparr>line_id = ''a'', line_name = ''A'', quantity = 2\<rparr>],
       status = ''pending''\<rparr>,
      \<lparr>order_id = ''o2'',
       products = [\<lparr>line_id = ''a'', line_name = ''A'', quantity = 1\<rparr>,
                   \<lparr>line_id = ''b'', line_name = ''B'', quantity = 5\<rparr>],
       status = ''shipped''\<rparr>]"

definition constructorOrders :: "Order list" where
  "constructorOrders =
     [\<lparr>order_id = ''o1'',
       products = [\<lparr>line_id = ''constructor'', line_name = ''C'', quantity = 2\<rparr>],
       status = ''pending''\<rparr>]"

definition largeOrders :: "Order list" where
  "largeOrders =
     [\<lparr>order_id = ''o1'',
       products = [\<lparr>line_id = ''a'', line_name = ''A'', quantity = 9007199254740992\<rparr>,
                   \<lparr>line_id = ''a'', line_name = ''A'', quantity = 1\<rparr>],
       status = ''pending''\<rparr>]"

definition someStore :: Store where
  "someStore =
     \<lparr>categories_col = [\<lparr>doc_id = ''c1'', doc_name = ''WOMEN''\<rparr>,
                        \<lparr>doc_id = ''c2'', doc_name = ''Shoes''\<rparr>],
      styles_col = [\<lparr>doc_id = ''s1'', doc_name = ''vintage''\<rparr>]\<rparr>"

definition fullStore :: Store where
  "fullStore =
     \<lparr>categories_col = map (\<lambda>n. \<lparr>doc_id = ''c-'' @ n, doc_name = toLowerCase n\<rparr>) defaultCategories,
      styles_col = map (\<lambda>n. \<lparr>doc_id = ''s-'' @ n, doc_name = n\<rparr>) defaultStyles\<rparr>"

definition countingId :: "NamedDoc list \<Rightarrow> string" where
  "countingId docs = ''auto-'' @ replicate (length docs) CHR ''x''"

definition someProduct :: Product where
  "someProduct = \<lparr>product_id = ''p1'', product_name = ''Old name'', product_slug = ''old-name''\<rparr>"

definition someForm :: ProductFormData where
  "someForm =
     defaultValues\<lparr>name := ''Tote Bag'', slug := ''tote-bag'', description := ''A bag'',
       category := ''Bags'', price := 1500,
       imageUrl1 := Some ''https://img.example/1.png'', imageUrl2 := None,
       imageUrl3 := Some ''https://img.example/3.png''\<rparr>"

subsection \<open>Facts about the regular-expression replacements\<close>

lemma replace_ampersand_concat:
  "replace_class_g isAmpersand ''and'' s =
     concat (map (\<lambda>c. if c = CHR ''&'' then ''and'' else [c]) s)"
  by (induction s) (simp_all add: isAmpersand_def)

lemma replace_class_g_empty: "replace_class_g p [] s = filter (\<lambda>c. \<not> p c) s"
  by (induction s) simp_all

lemma collapse_runs_in_run:
  "collapse_runs p True s = collapse_runs p False (dropWhile p s)"
  by (induction s) simp_all

lemma replace_plus_g_collapse:
  "replace_plus_g p ''-'' s = collapse_runs p False s"
  by (induction p "''-''" s rule: replace_plus_g.induct)
     (simp_all add: collapse_runs_in_run)

subsection \<open>The slug derivation is the specified one\<close>

text \<open>
  C1. The slug is a function of the name alone, computed by lowercasing, trimming,
  replacing every ampersand with \<open>and\<close>, dropping every character outside
  \<open>[a-z0-9\s-]\<close>, collapsing each run of white space to one hyphen and each run of
  hyphens to one hyphen; the name \<open>Men & Women's Bags!\<close> gives \<open>men-and-womens-bags\<close>.
\<close>

theorem generatedSlug_is_slug_spec:
  "generatedSlug nameValue = slug_spec nameValue
   \<and> generatedSlug ''Men & Women's Bags!'' = ''men-and-womens-bags''"
proof
  show "generatedSlug nameValue = slug_spec nameValue"
    by (simp add: generatedSlug_def slug_spec_def toLowerCase_def
        replace_plus_g_collapse replace_class_g_empty replace_ampersand_concat)
  show "generatedSlug ''Men & Women's Bags!'' = ''men-and-womens-bags''"
    by code_simp
qed

subsection \<open>Facts about the sales tally\<close>

lemma proto_not_member: "k \<notin> set objectPrototypeMembers \<Longrightarrow> k \<noteq> ''__proto__''"
  by (auto simp: objectPrototypeMembers_def)

lemma countLine_other_key: "line_id l \<noteq> k \<Longrightarrow> countLine counts l k = counts k"
  by (simp add: countLine_def setProp_def)

lemma countLine_same_key:
  assumes "line_id l = k" and "k \<notin> set objectPrototypeMembers"
    and "counts k = None \<and> c = 0 \<or> counts k = Some (Num c)"
    and "\<bar>c\<bar> + \<bar>quantity l\<bar> \<le> exactBound"
  shows "countLine counts l k = Some (Num (c + quantity l))"
proof -
  have k: "k \<noteq> ''__proto__''"
    using assms(2) by (rule proto_not_member)
  have q: "numberOf (quantity l) = Num (quantity l)"
    using assms(4) by (simp add: numberOf_def)
  have z: "orZero (getProp counts k) = Num c"
    using assms(2,3) by (auto simp: getProp_def)
  have "\<bar>c + quantity l\<bar> \<le> exactBound"
    using assms(4) by linarith
  then have "plus_js (Num c) (Num (quantity l)) = Num (c + quantity l)"
    by simp
  then show ?thesis
    using assms(1) k q z by (simp add: countLine_def setProp_def)
qed

lemma soldQuantity_Nil: "soldQuantity [] k = 0"
  by (simp add: soldQuantity_def)

lemma soldQuantity_Cons:
  "soldQuantity (l # ls) k = (if line_id l = k then quantity l else 0) + soldQuantity ls k"
  by (simp add: soldQuantity_def)

lemma soldQuantity_absent: "k \<notin> line_id ` set ls \<Longrightarrow> soldQuantity ls k = 0"
  by (induction ls) (auto simp: soldQuantity_Cons soldQuantity_Nil)

lemma absQuantity_Cons:
  "absQuantity (l # ls) k = (if line_id l = k then \<bar>quantity l\<bar> else 0) + absQuantity ls k"
  by (simp add: absQuantity_def)

lemma absQuantity_nonneg: "0 \<le> absQuantity ls k"
  by (induction ls) (simp_all add: absQuantity_def)

lemma foldl_countLine:
  assumes "k \<notin> set objectPrototypeMembers"
    and "counts k = None \<and> c = 0 \<or> counts k = Some (Num c)"
    and "\<bar>c\<bar> + absQuantity ls k \<le> exactBound"
  shows "foldl countLine counts ls k =
           (if k \<in> line_id ` set ls then Some (Num (c + soldQuantity ls k)) else counts k)"
  using assms(2,3)
proof (induction ls arbitrary: counts c)
  case Nil
  show ?case by simp
next
  case (Cons l ls)
  show ?case
  proof (cases "line_id l = k")
    case True
    have bound: "\<bar>c\<bar> + \<bar>quantity l\<bar> + absQuantity ls k \<le> exactBound"
      using Cons.prems(2) True by (simp add: absQuantity_Cons)
    have "\<bar>c\<bar> + \<bar>quantity l\<bar> \<le> exactBound"
      using bound absQuantity_nonneg [of ls k] by linarith
    then have step: "countLine counts l k = Some (Num (c + quantity l))"
      using True assms(1) Cons.prems(1) by (rule countLine_same_key [rotated 3])
    have "\<bar>c + quantity l\<bar> + absQuantity ls k \<le> exactBound"
      using bound by linarith
    then have "foldl countLine (countLine counts l) ls k =
           (if k \<in> line_id ` set ls then Some (Num (c + quantity l + soldQuantity ls k))
            else countLine counts l k)"
      using step by (intro Cons.IH) simp_all
    then show ?thesis
      using True step by (simp add: soldQuantity_Cons soldQuantity_absent)
  next
    case False
    have keep: "countLine counts l k = counts k"
      using False by (rule countLine_other_key)
    have "\<bar>c\<bar> + absQuantity ls k \<le> exactBound"
      using Cons.prems(2) False by (simp add: absQuantity_Cons)
    then have "foldl countLine (countLine counts l) ls k =
           (if k \<in> line_id ` set ls then Some (Num (c + soldQuantity ls k))
            else countLine counts l k)"
      using Cons.prems(1) keep by (intro Cons.IH) simp_all
    then show ?thesis
      using False keep by (auto simp: soldQuantity_Cons)
  qed
qed

lemma foldl_countOrder: "foldl countOrder counts os = foldl countLine counts (allLines os)"
  by (induction os arbitrary: counts) (simp_all add: allLines_def countOrder_def)

text \<open>
  C3, as stated, fails. The entry of the product id \<open>constructor\<close> after one line with
  quantity 2 is not the number 2: the key is not absent on a fresh object, so nothing
  defaults to 0 and the entry is a string. And the quantities \<open>2^53\<close> and 1 of one product
  do not add up to their sum, which is not a double.
\<close>

theorem salesCount_not_the_sum:
  "salesCount (Some constructorOrders) ''constructor'' = Some Other
   \<and> salesCount (Some constructorOrders) ''constructor'' \<noteq> Some (Num 2)
   \<and> soldQuantity (allLines largeOrders) ''a'' = 9007199254740993
   \<and> salesCount (Some largeOrders) ''a'' = Some Inexact
   \<and> salesCount (Some largeOrders) ''a'' \<noteq> Some (Num 9007199254740993)"
  by (simp add: salesCount_def countOrder_def countLine_def constructorOrders_def
      largeOrders_def getProp_def setProp_def objectPrototypeMembers_def numberOf_def
      exactBound_def soldQuantity_def allLines_def)

text \<open>
  C3, amended. The sales tally is a function of the order list. For a product id that
  does not name a member of \<open>Object.prototype\<close> and whose quantities are integers with
  absolute values adding up to at most \<open>2^53\<close>, the tally has an entry exactly when some
  line of some order carries the id, and the entry is the sum of the quantities of
  those lines (an absent entry counts as 0 when a line is added). The orders
  \<open>[{a: 2}]\<close> and \<open>[{a: 1}, {b: 5}]\<close> give \<open>{a: 3, b: 5}\<close>; no orders give the empty tally.
\<close>

theorem salesCount_tally:
  "(k \<notin> set objectPrototypeMembers \<and> absQuantity (allLines os) k \<le> exactBound \<longrightarrow>
      salesCount (Some os) k =
        (if k \<in> line_id ` set (allLines os) then Some (Num (soldQuantity (allLines os) k))
         else None))
   \<and> salesCount (Some exampleOrders) = [''a'' \<mapsto> Num 3, ''b'' \<mapsto> Num 5]
   \<and> salesCount (Some []) = Map.empty
   \<and> salesCount None = Map.empty"
proof (intro conjI impI)
  assume "k \<notin> set objectPrototypeMembers \<and> absQuantity (allLines os) k \<le> exactBound"
  then have "foldl countLine Map.empty (allLines os) k =
      (if k \<in> line_id ` set (allLines os) then Some (Num (0 + soldQuantity (allLines os) k))
       else Map.empty k)"
    by (intro foldl_countLine) simp_all
  then show "salesCount (Some os) k =
        (if k \<in> line_id ` set (allLines os) then Some (Num (soldQuantity (allLines os) k))
         else None)"
    by (simp add: salesCount_def foldl_countOrder)
next
  show "salesCount (Some exampleOrders) = [''a'' \<mapsto> Num 3, ''b'' \<mapsto> Num 5]"
    by (simp add: salesCount_def countOrder_def countLine_def exampleOrders_def
        getProp_def setProp_def objectPrototypeMembers_def numberOf_def exactBound_def)
next
  show "salesCount (Some []) = Map.empty"
    by (simp add: salesCount_def)
next
  show "salesCount None = Map.empty"
    by (simp add: salesCount_def)
qed

theorem salesCount_tally_witness:
  "''a'' \<notin> set objectPrototypeMembers
   \<and> absQuantity (allLines exampleOrders) ''a'' \<le> exactBound
   \<and> salesCount (Some exampleOrders) ''a'' = Some (Num 3)
   \<and> ''c'' \<notin> set objectPrototypeMembers
   \<and> absQuantity (allLines exampleOrders) ''c'' \<le> exactBound
   \<and> salesCount (Some exampleOrders) ''c'' = None"
proof -
  have p: "''a'' \<notin> set objectPrototypeMembers" "''c'' \<notin> set objectPrototypeMembers"
    by (simp_all add: objectPrototypeMembers_def)
  have b: "absQuantity (allLines exampleOrders) ''a'' \<le> exactBound"
    "absQuantity (allLines exampleOrders) ''c'' \<le> exactBound"
    by (simp_all add: absQuantity_def allLines_def exampleOrders_def exactBound_def)
  have i: "''a'' \<in> line_id ` set (allLines exampleOrders)"
    "''c'' \<notin> line_id ` set (allLines exampleOrders)"
    by (simp_all add: allLines_def exampleOrders_def)
  have q: "soldQuantity (allLines exampleOrders) ''a'' = 3"
    by (simp add: soldQuantity_def allLines_def exampleOrders_def)
  have x: "salesCount (Some exampleOrders) ''a'' = Some (Num 3)"
    using salesCount_tally [of "''a''" exampleOrders] p(1) b(1) i(1) q by simp
  have y: "salesCount (Some exampleOrders) ''c'' = None"
    using salesCount_tally [of "''c''" exampleOrders] p(2) b(2) i(2) by simp
  show ?thesis
    using p b x y by simp
qed

subsection \<open>Facts about taxonomy seeding\<close>

lemma seedWrites_missing:
  "seedWrites col defaults docs =
     map (\<lambda>n. AddDocument col (NameDoc n)) (missingDefaults defaults docs)"
  by (simp add: seedWrites_def missingDefaults_def names_ci_def)

lemma foldl_add_categories:
  "foldl (applyWrite newId) st (map (\<lambda>n. AddDocument ''categories'' (NameDoc n)) ns) =
     st\<lparr>categories_col := addNamed newId (categories_col st) ns\<rparr>"
  by (induction ns arbitrary: st) simp_all

lemma foldl_add_styles:
  "foldl (applyWrite newId) st (map (\<lambda>n. AddDocument ''styles'' (NameDoc n)) ns) =
     st\<lparr>styles_col := addNamed newId (styles_col st) ns\<rparr>"
  by (induction ns arbitrary: st) simp_all

lemma seedStore_eq:
  "seedStore newId st =
     st\<lparr>categories_col :=
          addNamed newId (categories_col st) (missingDefaults defaultCategories (categories_col st)),
        styles_col :=
          addNamed newId (styles_col st) (missingDefaults defaultStyles (styles_col st))\<rparr>"
  by (simp add: seedStore_def seedEffect_def initialState_def seedWrites_missing
      foldl_add_categories foldl_add_styles)

lemma addNamed_names: "map doc_name (addNamed newId docs ns) = map doc_name docs @ ns"
  by (induction ns arbitrary: docs) simp_all

lemma addNamed_take: "take (length docs) (addNamed newId docs ns) = docs"
proof (induction ns arbitrary: docs)
  case Nil
  show ?case by simp
next
  case (Cons n ns)
  let ?docs' = "docs @ [\<lparr>doc_id = newId docs, doc_name = n\<rparr>]"
  have "take (length docs) (addNamed newId ?docs' ns)
        = take (length docs) (take (length ?docs') (addNamed newId ?docs' ns))"
    by (simp add: min_def)
  also have "\<dots> = take (length docs) ?docs'"
    by (simp only: Cons.IH)
  finally show ?case by simp
qed

lemma names_ci_addNamed:
  "names_ci (addNamed newId docs ns) = names_ci docs @ map toLowerCase ns"
proof -
  have "names_ci (addNamed newId docs ns) =
          map toLowerCase (map doc_name (addNamed newId docs ns))"
    by (simp add: names_ci_def)
  then show ?thesis
    by (simp add: addNamed_names names_ci_def)
qed

lemma missingDefaults_after:
  "missingDefaults defaults (addNamed newId docs (missingDefaults defaults docs)) = []"
  by (auto simp: missingDefaults_def names_ci_addNamed filter_empty_conv)

lemma missingDefaults_none:
  "set (map toLowerCase defaults) \<subseteq> set (names_ci docs) \<Longrightarrow> missingDefaults defaults docs = []"
  by (auto simp: missingDefaults_def filter_empty_conv)

lemma seedStore_idem: "seedStore newId (seedStore newId st) = seedStore newId st"
  by (simp add: seedStore_eq [of newId "seedStore newId st"])
     (simp add: seedStore_eq missingDefaults_after)

lemma defaultCategories_distinct_ci: "distinct (map toLowerCase defaultCategories)"
  by code_simp

lemma defaultStyles_distinct_ci: "distinct (map toLowerCase defaultStyles)"
  by code_simp

lemma missingDefaults_distinct:
  "distinct (map toLowerCase defaults) \<Longrightarrow>
     distinct (map toLowerCase (missingDefaults defaults docs))"
  by (simp add: missingDefaults_def distinct_map_filter)

lemma missingDefaults_disjoint:
  "set (map toLowerCase (missingDefaults defaults docs)) \<inter> set (names_ci docs) = {}"
  by (auto simp: missingDefaults_def)

lemma seeded_distinct_ci:
  assumes "distinct (map toLowerCase defaults)" and "distinct (names_ci docs)"
  shows "distinct (names_ci (addNamed newId docs (missingDefaults defaults docs)))"
  using assms missingDefaults_disjoint [of defaults docs]
  by (simp add: names_ci_addNamed missingDefaults_distinct Int_commute)

text \<open>
  C4. Seeding is idempotent and does not destroy anything. With both collections
  loaded, the writes of the effect are one insertion for each default name that the
  collection lacks, case ignored, and nothing else; when no default is lacking the
  effect changes nothing. Applied to the store, the documents that were there stay as
  they are, the names added are new to the collection and distinct from each other,
  case ignored, so a collection without such duplicates stays without them; and a
  second run leaves the store of the first run as it is.
\<close>

theorem seeding_idempotent_nondestructive:
  "(firestore s \<longrightarrow>
      writes (seedEffect False False (Some cs) (Some ss) s) =
        writes s
        @ map (\<lambda>n. AddDocument ''categories'' (NameDoc n)) (missingDefaults defaultCategories cs)
        @ map (\<lambda>n. AddDocument ''styles'' (NameDoc n)) (missingDefaults defaultStyles ss))
   \<and> (set (map toLowerCase defaultCategories) \<subseteq> set (names_ci cs)
        \<and> set (map toLowerCase defaultStyles) \<subseteq> set (names_ci ss) \<longrightarrow>
        seedEffect False False (Some cs) (Some ss) s = s)
   \<and> map doc_name (categories_col (seedStore newId st)) =
        map doc_name (categories_col st) @ missingDefaults defaultCategories (categories_col st)
   \<and> map doc_name (styles_col (seedStore newId st)) =
        map doc_name (styles_col st) @ missingDefaults defaultStyles (styles_col st)
   \<and> take (length (categories_col st)) (categories_col (seedStore newId st)) = categories_col st
   \<and> take (length (styles_col st)) (styles_col (seedStore newId st)) = styles_col st
   \<and> (distinct (names_ci (categories_col st)) \<longrightarrow>
        distinct (names_ci (categories_col (seedStore newId st))))
   \<and> (distinct (names_ci (styles_col st)) \<longrightarrow>
        distinct (names_ci (styles_col (seedStore newId st))))
   \<and> seedStore newId (seedStore newId st) = seedStore newId st"
proof (intro conjI impI)
  assume "firestore s"
  then show "writes (seedEffect False False (Some cs) (Some ss) s) =
        writes s
        @ map (\<lambda>n. AddDocument ''categories'' (NameDoc n)) (missingDefaults defaultCategories cs)
        @ map (\<lambda>n. AddDocument ''styles'' (NameDoc n)) (missingDefaults defaultStyles ss)"
    by (simp add: seedEffect_def seedWrites_missing)
next
  assume "set (map toLowerCase defaultCategories) \<subseteq> set (names_ci cs)
        \<and> set (map toLowerCase defaultStyles) \<subseteq> set (names_ci ss)"
  then have "missingDefaults defaultCategories cs = []" "missingDefaults defaultStyles ss = []"
    by (simp_all add: missingDefaults_none)
  then show "seedEffect False False (Some cs) (Some ss) s = s"
    by (simp add: seedEffect_def seedWrites_missing)
next
  show "map doc_name (categories_col (seedStore newId st)) =
        map doc_name (categories_col st) @ missingDefaults defaultCategories (categories_col st)"
    by (simp add: seedStore_eq addNamed_names)
next
  show "map doc_name (styles_col (seedStore newId st)) =
        map doc_name (styles_col st) @ missingDefaults defaultStyles (styles_col st)"
    by (simp add: seedStore_eq addNamed_names)
next
  show "take (length (categories_col st)) (categories_col (seedStore newId st)) = categories_col st"
    by (simp add: seedStore_eq addNamed_take)
next
  show "take (length (styles_col st)) (styles_col (seedStore newId st)) = styles_col st"
    by (simp add: seedStore_eq addNamed_take)
next
  assume "distinct (names_ci (categories_col st))"
  then show "distinct (names_ci (categories_col (seedStore newId st)))"
    by (simp add: seedStore_eq seeded_distinct_ci defaultCategories_distinct_ci)
next
  assume "distinct (names_ci (styles_col st))"
  then show "distinct (names_ci (styles_col (seedStore newId st)))"
    by (simp add: seedStore_eq seeded_distinct_ci defaultStyles_distinct_ci)
next
  show "seedStore newId (seedStore newId st) = seedStore newId st"
    by (rule seedStore_idem)
qed

theorem seeding_idempotent_nondestructive_witness:
  "firestore initialState
   \<and> writes (seedEffect False False (Some (categories_col someStore))
               (Some (styles_col someStore)) initialState) =
       [AddDocument ''categories'' (NameDoc ''Men''),
        AddDocument ''categories'' (NameDoc ''Unisex''),
        AddDocument ''categories'' (NameDoc ''Bags''),
        AddDocument ''styles'' (NameDoc ''Casual''),
        AddDocument ''styles'' (NameDoc ''Streetwear''),
        AddDocument ''styles'' (NameDoc ''Formal''),
        AddDocument ''styles'' (NameDoc ''Minimal''),
        AddDocument ''styles'' (NameDoc ''Small''),
        AddDocument ''styles'' (NameDoc ''Big''),
        AddDocument ''styles'' (NameDoc ''Luggage'')]
   \<and> set (map toLowerCase defaultCategories) \<subseteq> set (names_ci (categories_col fullStore))
   \<and> set (map toLowerCase defaultStyles) \<subseteq> set (names_ci (styles_col fullStore))
   \<and> seedEffect False False (Some (categories_col fullStore)) (Some (styles_col fullStore))
        initialState = initialState
   \<and> map doc_name (categories_col (seedStore countingId someStore)) =
        [''WOMEN'', ''Shoes'', ''Men'', ''Unisex'', ''Bags'']
   \<and> distinct (names_ci (categories_col someStore))
   \<and> distinct (names_ci (categories_col (seedStore countingId someStore)))
   \<and> distinct (names_ci (styles_col someStore))
   \<and> distinct (names_ci (styles_col (seedStore countingId someStore)))
   \<and> seedStore countingId (seedStore countingId someStore) = seedStore countingId someStore"
proof -
  have f: "firestore initialState"
    by (simp add: initialState_def)
  have w0: "writes initialState = []"
    by (simp add: initialState_def)
  have mc: "missingDefaults defaultCategories (categories_col someStore) =
              [''Men'', ''Unisex'', ''Bags'']"
    by code_simp
  have ms: "missingDefaults defaultStyles (styles_col someStore) =
              [''Casual'', ''Streetwear'', ''Formal'', ''Minimal'', ''Small'', ''Big'', ''Luggage'']"
    by code_simp
  have nm: "map doc_name (categories_col someStore) = [''WOMEN'', ''Shoes'']"
    by (simp add: someStore_def)
  have fc: "set (map toLowerCase defaultCategories) \<subseteq> set (names_ci (categories_col fullStore))"
    by code_simp
  have fs: "set (map toLowerCase defaultStyles) \<subseteq> set (names_ci (styles_col fullStore))"
    by code_simp
  have dc: "distinct (names_ci (categories_col someStore))"
    by code_simp
  have ds: "distinct (names_ci (styles_col someStore))"
    by code_simp
  have a: "writes (seedEffect False False (Some (categories_col someStore))
               (Some (styles_col someStore)) initialState) =
       [AddDocument ''categories'' (NameDoc ''Men''),
        AddDocument ''categories'' (NameDoc ''Unisex''),
        AddDocument ''categories'' (NameDoc ''Bags''),
        AddDocument ''styles'' (NameDoc ''Casual''),
        AddDocument ''styles'' (NameDoc ''Streetwear''),
        AddDocument ''styles'' (NameDoc ''Formal''),
        AddDocument ''styles'' (NameDoc ''Minimal''),
        AddDocument ''styles'' (NameDoc ''Small''),
        AddDocument ''styles'' (NameDoc ''Big''),
        AddDocument ''styles'' (NameDoc ''Luggage'')]"
    using seeding_idempotent_nondestructive [of initialState "categories_col someStore" "styles_col someStore"] f
    by (simp add: w0 mc ms)
  have b: "seedEffect False False (Some (categories_col fullStore)) (Some (styles_col fullStore))
        initialState = initialState"
    using seeding_idempotent_nondestructive [of initialState "categories_col fullStore" "styles_col fullStore"] fc fs
    by blast
  have c: "map doc_name (categories_col (seedStore countingId someStore)) =
        [''WOMEN'', ''Shoes'', ''Men'', ''Unisex'', ''Bags'']"
    using seeding_idempotent_nondestructive [of _ _ _ countingId someStore] by (simp add: mc nm)
  have d: "distinct (names_ci (categories_col (seedStore countingId someStore)))"
    using seeding_idempotent_nondestructive [of _ _ _ countingId someStore] dc by blast
  have e: "distinct (names_ci (styles_col (seedStore countingId someStore)))"
    using seeding_idempotent_nondestructive [of _ _ _ countingId someStore] ds by blast
  have g: "seedStore countingId (seedStore countingId someStore) = seedStore countingId someStore"
    using seeding_idempotent_nondestructive [of _ _ _ countingId someStore] by blast
  show ?thesis
    using f a fc fs b c dc d ds e g by blast
qed

subsection \<open>Facts about the submit handler\<close>

lemma submittedImages_nonEmptyUrls:
  "submittedImages data =
     map (\<lambda>u. \<lparr>url = u, alt = name data, hint = ''product image''\<rparr>) (nonEmptyUrls data)"
  by (cases "imageUrl1 data"; cases "imageUrl2 data"; cases "imageUrl3 data";
      cases "imageUrl4 data")
     (simp_all add: submittedImages_def nonEmptyUrls_def)

lemma productData_style:
  "style (productData data) = (if style data = Some [] then None else style data)"
  by (cases "style data") (simp_all add: productData_def)

lemma productData_originalPrice:
  "originalPrice (productData data) =
     (if originalPrice data = Some 0 then None else originalPrice data)"
  by (cases "originalPrice data") (simp_all add: productData_def)

lemma productData_images:
  "images (productData data) =
     map (\<lambda>u. \<lparr>url = u, alt = name data, hint = ''product image''\<rparr>) (nonEmptyUrls data)"
  by (simp add: productData_def submittedImages_nonEmptyUrls)

lemma lastWritten_onSubmit:
  "firestore s \<Longrightarrow>
     lastWritten (onSubmit data s) =
       Some ((productData data)\<lparr>createdAt :=
               (if editingProduct s = None then Some ServerTimestamp else None)\<rparr>)"
  by (cases "editingProduct s") (simp_all add: lastWritten_def onSubmit_def productData_def)

text \<open>
  C5. On submit (with a backend handle) one product record is written: added with a
  creation timestamp when no product is being edited, else written over the edited
  one. Its image list is made of the non-empty URL fields in the order 1 to 4, each
  with the product name as alt text, so four filled fields give four images in that
  order; its style is \<open>null\<close> when the field is empty or absent and its original price
  is \<open>null\<close> when the field is empty (or 0), never an empty string.
\<close>

theorem onSubmit_written_record:
  "(firestore s \<and> editingProduct s = None \<longrightarrow>
      writes (onSubmit data s) =
        writes s @ [AddDocument ''products''
                      (ProductDoc ((productData data)\<lparr>createdAt := Some ServerTimestamp\<rparr>))])
   \<and> (firestore s \<and> editingProduct s = Some p \<longrightarrow>
        writes (onSubmit data s) =
          writes s @ [UpdateDocument ''products'' (product_id p) (ProductDoc (productData data))])
   \<and> (firestore s \<longrightarrow>
        map_option images (lastWritten (onSubmit data s)) =
          Some (map (\<lambda>u. \<lparr>url = u, alt = name data, hint = ''product image''\<rparr>)
                  (nonEmptyUrls data))
        \<and> map_option style (lastWritten (onSubmit data s)) =
            Some (if style data = Some [] then None else style data)
        \<and> map_option originalPrice (lastWritten (onSubmit data s)) =
            Some (if originalPrice data = Some 0 then None else originalPrice data))
   \<and> (imageUrl1 data = Some u1 \<and> imageUrl2 data = Some u2 \<and> imageUrl3 data = Some u3
        \<and> imageUrl4 data = Some u4 \<and> u1 \<noteq> [] \<and> u2 \<noteq> [] \<and> u3 \<noteq> [] \<and> u4 \<noteq> [] \<longrightarrow>
        nonEmptyUrls data = [u1, u2, u3, u4])"
proof (intro conjI impI)
  assume "firestore s \<and> editingProduct s = None"
  then show "writes (onSubmit data s) =
        writes s @ [AddDocument ''products''
                      (ProductDoc ((productData data)\<lparr>createdAt := Some ServerTimestamp\<rparr>))]"
    by (simp add: onSubmit_def)
next
  assume "firestore s \<and> editingProduct s = Some p"
  then show "writes (onSubmit data s) =
          writes s @ [UpdateDocument ''products'' (product_id p) (ProductDoc (productData data))]"
    by (simp add: onSubmit_def)
next
  assume f: "firestore s"
  show "map_option images (lastWritten (onSubmit data s)) =
          Some (map (\<lambda>u. \<lparr>url = u, alt = name data, hint = ''product image''\<rparr>)
                  (nonEmptyUrls data))"
    by (simp add: lastWritten_onSubmit [OF f] productData_images)
  show "map_option style (lastWritten (onSubmit data s)) =
            Some (if style data = Some [] then None else style data)"
    using productData_style [of data] by (simp add: lastWritten_onSubmit [OF f])
  show "map_option originalPrice (lastWritten (onSubmit data s)) =
            Some (if originalPrice data = Some 0 then None else originalPrice data)"
    using productData_originalPrice [of data] by (simp add: lastWritten_onSubmit [OF f])
next
  assume "imageUrl1 data = Some u1 \<and> imageUrl2 data = Some u2 \<and> imageUrl3 data = Some u3
        \<and> imageUrl4 data = Some u4 \<and> u1 \<noteq> [] \<and> u2 \<noteq> [] \<and> u3 \<noteq> [] \<and> u4 \<noteq> []"
  then show "nonEmptyUrls data = [u1, u2, u3, u4]"
    by (simp add: nonEmptyUrls_def)
qed

theorem onSubmit_written_record_witness:
  "firestore initialState \<and> editingProduct initialState = None
   \<and> map_option images (lastWritten (onSubmit someForm initialState)) =
       Some [\<lparr>url = ''https://img.example/1.png'', alt = ''Tote Bag'', hint = ''product image''\<rparr>,
             \<lparr>url = ''https://img.example/3.png'', alt = ''Tote Bag'', hint = ''product image''\<rparr>]
   \<and> map_option style (lastWritten (onSubmit someForm initialState)) = Some None
   \<and> map_option originalPrice (lastWritten (onSubmit someForm initialState)) = Some None
   \<and> nonEmptyUrls (someForm\<lparr>imageUrl1 := Some ''a'', imageUrl2 := Some ''b'',
         imageUrl3 := Some ''c'', imageUrl4 := Some ''d''\<rparr>) = [''a'', ''b'', ''c'', ''d'']
   \<and> writes (onSubmit someForm (initialState\<lparr>editingProduct := Some someProduct\<rparr>)) =
       [UpdateDocument ''products'' ''p1'' (ProductDoc (productData someForm))]"
proof -
  have f: "firestore initialState" and e: "editingProduct initialState = None"
    and w: "writes initialState = []"
    by (simp_all add: initialState_def)
  have n: "nonEmptyUrls someForm = [''https://img.example/1.png'', ''https://img.example/3.png'']"
    by (simp add: nonEmptyUrls_def someForm_def defaultValues_def)
  have v: "name someForm = ''Tote Bag''" "style someForm = Some []" "originalPrice someForm = None"
    by (simp_all add: someForm_def defaultValues_def)
  have a: "map_option images (lastWritten (onSubmit someForm initialState)) =
       Some [\<lparr>url = ''https://img.example/1.png'', alt = ''Tote Bag'', hint = ''product image''\<rparr>,
             \<lparr>url = ''https://img.example/3.png'', alt = ''Tote Bag'', hint = ''product image''\<rparr>]"
    using onSubmit_written_record [of initialState someForm] f by (simp add: n v)
  have b: "map_option style (lastWritten (onSubmit someForm initialState)) = Some None"
    using onSubmit_written_record [of initialState someForm] f by (simp add: v)
  have c: "map_option originalPrice (lastWritten (onSubmit someForm initialState)) = Some None"
    using onSubmit_written_record [of initialState someForm] f by (simp add: v)
  have d: "nonEmptyUrls (someForm\<lparr>imageUrl1 := Some ''a'', imageUrl2 := Some ''b'',
         imageUrl3 := Some ''c'', imageUrl4 := Some ''d''\<rparr>) = [''a'', ''b'', ''c'', ''d'']"
    using onSubmit_written_record [of _ "someForm\<lparr>imageUrl1 := Some ''a'', imageUrl2 := Some ''b'',
         imageUrl3 := Some ''c'', imageUrl4 := Some ''d''\<rparr>" _ "''a''" "''b''" "''c''" "''d''"]
    by simp
  have g: "writes (onSubmit someForm (initialState\<lparr>editingProduct := Some someProduct\<rparr>)) =
       [UpdateDocument ''products'' ''p1'' (ProductDoc (productData someForm))]"
    using onSubmit_written_record [of "initialState\<lparr>editingProduct := Some someProduct\<rparr>"
        someForm someProduct] f
    by (simp add: w someProduct_def)
  show ?thesis
    using f e a b c d g by blast
qed

subsection \<open>The slug effect\<close>

text \<open>
  C2, as stated, fails: while a product is being created, a change of the name to the
  empty string does not recompute the slug. After the name \<open>a\<close> has been typed and
  deleted again the slug is still \<open>a\<close>, not the slug of the empty name.
\<close>

theorem slug_not_recomputed_for_empty_name:
  "editingProduct (changeName ''a'' initialState) = None
   \<and> name (form (changeName '''' (changeName ''a'' initialState))) = ''''
   \<and> slug (form (changeName '''' (changeName ''a'' initialState))) = ''a''
   \<and> slug (form (changeName '''' (changeName ''a'' initialState))) \<noteq> generatedSlug ''''"
proof -
  have a: "generatedSlug ''a'' = ''a''" by code_simp
  have e: "generatedSlug '''' = ''''" by code_simp
  show ?thesis
    by (simp add: changeName_def slugEffect_def initialState_def defaultValues_def a e)
qed

text \<open>
  C2, amended. While a product is being created, every change of the name to a
  non-empty value recomputes the slug from the name, and a change to the empty name
  leaves the slug as it was; while a product is being edited, no change of the name
  changes the slug.
\<close>

theorem slug_recomputed_while_creating:
  "(editingProduct s = None \<and> v \<noteq> [] \<longrightarrow> slug (form (changeName v s)) = generatedSlug v)
   \<and> (editingProduct s = None \<and> v = [] \<longrightarrow> slug (form (changeName v s)) = slug (form s))
   \<and> (editingProduct s \<noteq> None \<longrightarrow> slug (form (changeName v s)) = slug (form s))"
  by (simp add: changeName_def slugEffect_def)

theorem slug_recomputed_while_creating_witness:
  "editingProduct initialState = None
   \<and> slug (form (changeName ''Tote Bag'' initialState)) = ''tote-bag''
   \<and> slug (form (changeName '''' (changeName ''Tote Bag'' initialState))) = ''tote-bag''
   \<and> editingProduct (initialState\<lparr>editingProduct := Some someProduct,
         form := defaultValues\<lparr>name := ''Old name'', slug := ''old-name''\<rparr>\<rparr>) \<noteq> None
   \<and> slug (form (changeName ''New name'' (initialState\<lparr>editingProduct := Some someProduct,
         form := defaultValues\<lparr>name := ''Old name'', slug := ''old-name''\<rparr>\<rparr>))) = ''old-name''"
proof -
  have g: "generatedSlug ''Tote Bag'' = ''tote-bag''" by code_simp
  have e: "editingProduct initialState = None" by (simp add: initialState_def)
  have a: "slug (form (changeName ''Tote Bag'' initialState)) = ''tote-bag''"
    using slug_recomputed_while_creating [of initialState "''Tote Bag''"] e g by simp
  have e2: "editingProduct (changeName ''Tote Bag'' initialState) = None"
    by (simp add: changeName_def slugEffect_def initialState_def)
  have b: "slug (form (changeName '''' (changeName ''Tote Bag'' initialState))) = ''tote-bag''"
    using slug_recomputed_while_creating [of "changeName ''Tote Bag'' initialState" "''''"] e2 a
    by simp
  have c: "slug (form (changeName ''New name'' (initialState\<lparr>editingProduct := Some someProduct,
         form := defaultValues\<lparr>name := ''Old name'', slug := ''old-name''\<rparr>\<rparr>))) = ''old-name''"
    using slug_recomputed_while_creating [of "initialState\<lparr>editingProduct := Some someProduct,
         form := defaultValues\<lparr>name := ''Old name'', slug := ''old-name''\<rparr>\<rparr>" "''New name''"]
    by simp
  show ?thesis using e a b c by simp
qed

subsection \<open>The upload callbacks\<close>

text \<open>
  C6. When an upload completes, the download URL goes into the first of the image URL
  fields 1 to 4 that is empty, and into no other field; when all four are filled the
  form stays as it is. In both cases the URL is kept as the uploaded URL (shown for
  copying), the upload is over, and nothing is written to the backend.
\<close>

theorem upload_fills_first_empty_field:
  "form (uploadCompleted u s) =
     (if \<not> truthy_string (imageUrl1 (form s)) then (form s)\<lparr>imageUrl1 := Some u\<rparr>
      else if \<not> truthy_string (imageUrl2 (form s)) then (form s)\<lparr>imageUrl2 := Some u\<rparr>
      else if \<not> truthy_string (imageUrl3 (form s)) then (form s)\<lparr>imageUrl3 := Some u\<rparr>
      else if \<not> truthy_string (imageUrl4 (form s)) then (form s)\<lparr>imageUrl4 := Some u\<rparr>
      else form s)
   \<and> uploadedUrl (uploadCompleted u s) = Some u
   \<and> \<not> uploading (uploadCompleted u s)
   \<and> writes (uploadCompleted u s) = writes s"
  by (simp add: uploadCompleted_def imageFields_def Let_def)

theorem upload_fills_first_empty_field_witness:
  "form (uploadCompleted ''https://img.example/new.png'' (initialState\<lparr>form := someForm\<rparr>)) =
     someForm\<lparr>imageUrl2 := Some ''https://img.example/new.png''\<rparr>
   \<and> form (uploadCompleted ''https://img.example/new.png''
         (initialState\<lparr>form := someForm\<lparr>imageUrl2 := Some ''b'', imageUrl4 := Some ''d''\<rparr>\<rparr>)) =
       someForm\<lparr>imageUrl2 := Some ''b'', imageUrl4 := Some ''d''\<rparr>
   \<and> uploadedUrl (uploadCompleted ''https://img.example/new.png''
         (initialState\<lparr>form := someForm\<lparr>imageUrl2 := Some ''b'', imageUrl4 := Some ''d''\<rparr>\<rparr>)) =
       Some ''https://img.example/new.png''"
proof -
  have a: "form (uploadCompleted ''https://img.example/new.png'' (initialState\<lparr>form := someForm\<rparr>)) =
     someForm\<lparr>imageUrl2 := Some ''https://img.example/new.png''\<rparr>"
    using upload_fills_first_empty_field [of "''https://img.example/new.png''"
        "initialState\<lparr>form := someForm\<rparr>"]
    by (simp add: someForm_def defaultValues_def)
  have b: "form (uploadCompleted ''https://img.example/new.png''
         (initialState\<lparr>form := someForm\<lparr>imageUrl2 := Some ''b'', imageUrl4 := Some ''d''\<rparr>\<rparr>)) =
       someForm\<lparr>imageUrl2 := Some ''b'', imageUrl4 := Some ''d''\<rparr>
     \<and> uploadedUrl (uploadCompleted ''https://img.example/new.png''
         (initialState\<lparr>form := someForm\<lparr>imageUrl2 := Some ''b'', imageUrl4 := Some ''d''\<rparr>\<rparr>)) =
       Some ''https://img.example/new.png''"
    using upload_fills_first_empty_field [of "''https://img.example/new.png''"
        "initialState\<lparr>form := someForm\<lparr>imageUrl2 := Some ''b'', imageUrl4 := Some ''d''\<rparr>\<rparr>"]
    by (simp add: someForm_def defaultValues_def)
  show ?thesis using a b by simp
qed

text \<open>
  C7. When an upload fails, the error is logged, the page is no longer uploading, and
  the form is the one from before the failure, also when compared with the form from
  before the upload started: no image URL field has changed. Nothing is written to the
  backend.
\<close>

theorem upload_failure_leaves_form:
  "form (uploadFailed e s) = form s
   \<and> \<not> uploading (uploadFailed e s)
   \<and> console (uploadFailed e s) = console s @ [''Upload failed '' @ e]
   \<and> writes (uploadFailed e s) = writes s
   \<and> form (uploadFailed e (uploadStarted s)) = form s"
  by (simp add: uploadFailed_def uploadStarted_def)

theorem upload_failure_leaves_form_witness:
  "form (uploadFailed ''storage/unauthorized'' (uploadStarted (initialState\<lparr>form := someForm\<rparr>))) =
     someForm
   \<and> \<not> uploading (uploadFailed ''storage/unauthorized''
          (uploadStarted (initialState\<lparr>form := someForm\<rparr>)))
   \<and> console (uploadFailed ''storage/unauthorized'' initialState) =
       [''Upload failed storage/unauthorized'']"
proof -
  have a: "form (uploadFailed ''storage/unauthorized''
             (uploadStarted (initialState\<lparr>form := someForm\<rparr>))) = someForm"
    using upload_failure_leaves_form [of "''storage/unauthorized''"
        "initialState\<lparr>form := someForm\<rparr>"] by simp
  have b: "\<not> uploading (uploadFailed ''storage/unauthorized''
          (uploadStarted (initialState\<lparr>form := someForm\<rparr>)))"
    using upload_failure_leaves_form [of "''storage/unauthorized''"
        "uploadStarted (initialState\<lparr>form := someForm\<rparr>)"] by simp
  have c: "console (uploadFailed ''storage/unauthorized'' initialState) =
       [''Upload failed storage/unauthorized'']"
    using upload_failure_leaves_form [of "''storage/unauthorized''" initialState]
    by (simp add: initialState_def)
  show ?thesis using a b c by simp
qed

subsection \<open>The order-status handler\<close>

text \<open>
  C8, as stated, fails: the handler checks nothing. Called with \<open>refunded\<close>, which is
  none of the four values, it writes that status to the order.
\<close>

theorem order_status_not_rejected:
  "''refunded'' \<notin> set statusSelectItems
   \<and> writes (handleUpdateOrderStatus ''order-0001'' ''refunded'' initialState) =
       [UpdateDocument ''orders'' ''order-0001'' (StatusDoc ''refunded'')]"
  by (simp add: handleUpdateOrderStatus_def statusSelectItems_def initialState_def)

text \<open>
  C8, amended. The handler checks nothing and rejects no value: with a backend handle,
  an order-status update writes the status it is given to the order record, for each
  of the four values pending, shipped, delivered and cancelled and for every other
  value alike; without a backend handle it writes nothing.
\<close>

theorem order_status_written_unchecked:
  "(firestore s \<longrightarrow>
      writes (handleUpdateOrderStatus orderId newStatus s) =
        writes s @ [UpdateDocument ''orders'' orderId (StatusDoc newStatus)])
   \<and> (\<not> firestore s \<longrightarrow> handleUpdateOrderStatus orderId newStatus s = s)"
  by (simp add: handleUpdateOrderStatus_def)

theorem order_status_written_unchecked_witness:
  "firestore initialState
   \<and> writes (handleUpdateOrderStatus ''order-0001'' ''pending'' initialState) =
       [UpdateDocument ''orders'' ''order-0001'' (StatusDoc ''pending'')]
   \<and> writes (handleUpdateOrderStatus ''order-0001'' ''shipped'' initialState) =
       [UpdateDocument ''orders'' ''order-0001'' (StatusDoc ''shipped'')]
   \<and> writes (handleUpdateOrderStatus ''order-0001'' ''delivered'' initialState) =
       [UpdateDocument ''orders'' ''order-0001'' (StatusDoc ''delivered'')]
   \<and> writes (handleUpdateOrderStatus ''order-0001'' ''cancelled'' initialState) =
       [UpdateDocument ''orders'' ''order-0001'' (StatusDoc ''cancelled'')]
   \<and> writes (handleUpdateOrderStatus ''order-0001'' ''refunded'' initialState) =
       [UpdateDocument ''orders'' ''order-0001'' (StatusDoc ''refunded'')]
   \<and> \<not> firestore (initialState\<lparr>firestore := False\<rparr>)
   \<and> handleUpdateOrderStatus ''order-0001'' ''shipped'' (initialState\<lparr>firestore := False\<rparr>) =
       initialState\<lparr>firestore := False\<rparr>"
proof -
  have f: "firestore initialState" and w: "writes initialState = []"
    by (simp_all add: initialState_def)
  have a: "writes (handleUpdateOrderStatus ''order-0001'' v initialState) =
       [UpdateDocument ''orders'' ''order-0001'' (StatusDoc v)]" for v
    using order_status_written_unchecked [of initialState "''order-0001''" v] f w
    by simp
  have b: "handleUpdateOrderStatus ''order-0001'' ''shipped'' (initialState\<lparr>firestore := False\<rparr>) =
       initialState\<lparr>firestore := False\<rparr>"
    using order_status_written_unchecked [of "initialState\<lparr>firestore := False\<rparr>"
        "''order-0001''" "''shipped''"]
    by simp
  show ?thesis using f a b by simp
qed

subsection \<open>The access gate\<close>

text \<open>
  C9. The gate renders one view, determined by the identity state: the loading
  placeholder while the identity is being resolved; the login form when nobody is
  signed in; the access-denied view for a signed-in user whose email is not the
  configured admin email; the dashboard for a signed-in user whose email is the
  configured admin email.
\<close>

theorem access_gate_views:
  "(isUserLoading \<longrightarrow> AdminDashboard isUserLoading user ADMIN_EMAIL = LoadingView)
   \<and> (\<not> isUserLoading \<and> user = None \<longrightarrow>
        AdminDashboard isUserLoading user ADMIN_EMAIL = LoginView)
   \<and> (\<not> isUserLoading \<and> user = Some u \<and> email u \<noteq> Some admin \<longrightarrow>
        AdminDashboard isUserLoading user (Some admin) = AccessDeniedView)
   \<and> (\<not> isUserLoading \<and> user = Some u \<and> email u = Some admin \<longrightarrow>
        AdminDashboard isUserLoading user (Some admin) = DashboardView)"
  by (cases "email u") (auto simp: AdminDashboard_def)

theorem access_gate_views_witness:
  "AdminDashboard True (Some \<lparr>email = Some ''admin@shop.example''\<rparr>) (Some ''admin@shop.example'')
     = LoadingView
   \<and> AdminDashboard False None (Some ''admin@shop.example'') = LoginView
   \<and> AdminDashboard False (Some \<lparr>email = Some ''eve@shop.example''\<rparr>) (Some ''admin@shop.example'')
     = AccessDeniedView
   \<and> AdminDashboard False (Some \<lparr>email = None\<rparr>) (Some ''admin@shop.example'')
     = AccessDeniedView
   \<and> AdminDashboard False (Some \<lparr>email = Some ''admin@shop.example''\<rparr>)
       (Some ''admin@shop.example'') = DashboardView"
proof -
  have a: "AdminDashboard True (Some \<lparr>email = Some ''admin@shop.example''\<rparr>)
             (Some ''admin@shop.example'') = LoadingView"
    using access_gate_views [of True "Some \<lparr>email = Some ''admin@shop.example''\<rparr>"
        "Some ''admin@shop.example''"] by simp
  have b: "AdminDashboard False None (Some ''admin@shop.example'') = LoginView"
    using access_gate_views [of False None "Some ''admin@shop.example''"] by simp
  have c: "AdminDashboard False (Some \<lparr>email = Some ''eve@shop.example''\<rparr>)
             (Some ''admin@shop.example'') = AccessDeniedView"
    using access_gate_views [of False "Some \<lparr>email = Some ''eve@shop.example''\<rparr>" _
        "\<lparr>email = Some ''eve@shop.example''\<rparr>" "''admin@shop.example''"] by simp
  have c': "AdminDashboard False (Some \<lparr>email = None\<rparr>) (Some ''admin@shop.example'')
              = AccessDeniedView"
    using access_gate_views [of False "Some \<lparr>email = None\<rparr>" _
        "\<lparr>email = None\<rparr>" "''admin@shop.example''"] by simp
  have d: "AdminDashboard False (Some \<lparr>email = Some ''admin@shop.example''\<rparr>)
             (Some ''admin@shop.example'') = DashboardView"
    using access_gate_views [of False "Some \<lparr>email = Some ''admin@shop.example''\<rparr>" _
        "\<lparr>email = Some ''admin@shop.example''\<rparr>" "''admin@shop.example''"] by simp
  show ?thesis using a b c c' d by simp
qed

subsection \<open>The taxonomy dialogs\<close>

lemma trim_empty_iff: "trim s = [] \<longleftrightarrow> list_all isWhiteSpace s"
proof
  assume "trim s = []"
  then have "\<forall>c \<in> set (dropWhile isWhiteSpace s). isWhiteSpace c"
    by (simp add: trim_def dropWhile_eq_Nil_conv)
  then have "dropWhile isWhiteSpace s = []"
    by (metis hd_dropWhile hd_in_set)
  then show "list_all isWhiteSpace s"
    by (simp add: dropWhile_eq_Nil_conv list_all_iff)
next
  assume "list_all isWhiteSpace s"
  then have d: "dropWhile isWhiteSpace s = []"
    by (simp add: dropWhile_eq_Nil_conv list_all_iff)
  show "trim s = []"
    unfolding trim_def d by simp
qed

text \<open>
  C10. Saving the category dialog or the style dialog with a name that is empty or all
  white space changes nothing: no write is issued. With any other name (and a backend
  handle) one document is added to the collection, and its name is the entered name
  trimmed.
\<close>

theorem add_taxonomy_trims:
  "(list_all isWhiteSpace (newCategoryName s) \<longrightarrow> handleAddCategory s = s)
   \<and> (firestore s \<and> \<not> list_all isWhiteSpace (newCategoryName s) \<longrightarrow>
        writes (handleAddCategory s) =
          writes s @ [AddDocument ''categories'' (NameDoc (trim (newCategoryName s)))])
   \<and> (list_all isWhiteSpace (newStyleName s) \<longrightarrow> handleAddStyle s = s)
   \<and> (firestore s \<and> \<not> list_all isWhiteSpace (newStyleName s) \<longrightarrow>
        writes (handleAddStyle s) =
          writes s @ [AddDocument ''styles'' (NameDoc (trim (newStyleName s)))])"
  by (simp add: handleAddCategory_def handleAddStyle_def trim_empty_iff)

theorem add_taxonomy_trims_witness:
  "list_all isWhiteSpace (newCategoryName (initialState\<lparr>newCategoryName := ''   ''\<rparr>))
   \<and> handleAddCategory (initialState\<lparr>newCategoryName := ''   ''\<rparr>) =
       initialState\<lparr>newCategoryName := ''   ''\<rparr>
   \<and> firestore (initialState\<lparr>newCategoryName := ''  Kids wear ''\<rparr>)
   \<and> \<not> list_all isWhiteSpace (newCategoryName (initialState\<lparr>newCategoryName := ''  Kids wear ''\<rparr>))
   \<and> writes (handleAddCategory (initialState\<lparr>newCategoryName := ''  Kids wear ''\<rparr>)) =
       [AddDocument ''categories'' (NameDoc ''Kids wear'')]
   \<and> list_all isWhiteSpace (newStyleName initialState)
   \<and> handleAddStyle initialState = initialState
   \<and> writes (handleAddStyle (initialState\<lparr>newStyleName := '' Retro''\<rparr>)) =
       [AddDocument ''styles'' (NameDoc ''Retro'')]"
proof -
  have f: "firestore initialState" and w: "writes initialState = []"
    and n: "newStyleName initialState = []"
    by (simp_all add: initialState_def)
  have w1: "list_all isWhiteSpace ''   ''" by code_simp
  have w2: "\<not> list_all isWhiteSpace ''  Kids wear ''" by code_simp
  have w3: "\<not> list_all isWhiteSpace '' Retro''" by code_simp
  have t2: "trim ''  Kids wear '' = ''Kids wear''" by code_simp
  have t3: "trim '' Retro'' = ''Retro''" by code_simp
  have a: "handleAddCategory (initialState\<lparr>newCategoryName := ''   ''\<rparr>) =
       initialState\<lparr>newCategoryName := ''   ''\<rparr>"
    using add_taxonomy_trims [of "initialState\<lparr>newCategoryName := ''   ''\<rparr>"] w1 by simp
  have b: "writes (handleAddCategory (initialState\<lparr>newCategoryName := ''  Kids wear ''\<rparr>)) =
       [AddDocument ''categories'' (NameDoc ''Kids wear'')]"
    using add_taxonomy_trims [of "initialState\<lparr>newCategoryName := ''  Kids wear ''\<rparr>"] w2 f w t2
    by simp
  have c: "handleAddStyle initialState = initialState"
    using add_taxonomy_trims [of initialState] n by simp
  have d: "writes (handleAddStyle (initialState\<lparr>newStyleName := '' Retro''\<rparr>)) =
       [AddDocument ''styles'' (NameDoc ''Retro'')]"
    using add_taxonomy_trims [of "initialState\<lparr>newStyleName := '' Retro''\<rparr>"] w3 f w t3
    by simp
  show ?thesis using f n w1 w2 a b c d by simp
qed

end
